theory Spec2Isabelle
  imports Complex_Main
begin

section \<open>Data model\<close>

subsection \<open>types.ts\<close>

datatype EditorTheme = ESPRESSO | COBALT

text \<open>
  \<open>Stack\<close> is declared in \<open>lib/stacks\<close>; the component names only
  \<open>Stack.HTML_TAILWIND\<close>, every other member is kept by its string value.
\<close>

datatype Stack = HTML_TAILWIND | OTHER_STACK string

record Settings =
  openAiApiKey :: "string option"
  openAiBaseURL :: "string option"
  screenshotOneApiKey :: "string option"
  isImageGenerationEnabled :: bool
  editorTheme :: EditorTheme
  generatedCodeConfig :: Stack
  isTermOfServiceAccepted :: bool
  accessCode :: "string option"

datatype AppState = INITIAL | CODING | CODE_READY

datatype GenerationType = GT_create | GT_update

text \<open>
  \<open>CodeGenerationParams\<close>: an optional field (\<open>resultImage?\<close>, \<open>history?\<close>, ...) is an
  \<open>option\<close>. \<open>image\<close> is declared \<open>string\<close>, but the component fills it with
  \<open>referenceImages[0]\<close>, which is \<open>undefined\<close> on an empty array: it is an \<open>option\<close> too.
\<close>

record CodeGenerationParams =
  generationType :: GenerationType
  image :: "string option"
  resultImage :: "string option"
  history :: "string list option"
  isImportedFromCodeParam :: "bool option"
  authToken :: "string option"

text \<open>\<open>FullGenerationSettings = CodeGenerationParams & Settings\<close>.\<close>

record FullGenerationSettings =
  generationParams :: CodeGenerationParams
  generationSettings :: Settings

subsection \<open>History entries, as the component builds them\<close>

datatype HistoryItemType = ai_create | ai_edit | code_create

datatype HistoryInputs =
    Inputs_image_url "string option"
  | Inputs_prompt string
  | Inputs_code string

text \<open>
  \<open>parentIndex\<close> and \<open>currentVersion\<close> are \<open>number | null\<close>. The only numbers the component
  ever stores in them are the literal \<open>0\<close>, \<open>newHistory.length - 1\<close> of a non-empty array
  and an index that passed the guard of \<open>revertToVersion\<close>, so they are natural numbers
  here and \<open>null\<close> is \<open>None\<close>.
\<close>

record HistoryItem =
  type :: HistoryItemType
  parentIndex :: "nat option"
  code :: string
  inputs :: HistoryInputs

type_synonym History = "HistoryItem list"

subsection \<open>The state variables of the App component\<close>

record App =
  appState :: AppState
  generatedCode :: string
  referenceImages :: "string list"
  executionConsole :: "string list"
  updateInstruction :: string
  isImportedFromCode :: bool
  settings :: Settings
  appHistory :: History
  currentVersion :: "nat option"
  shouldIncludeResultImage :: bool

definition initial_App :: "Settings \<Rightarrow> App" where
  "initial_App st =
     \<lparr> appState = INITIAL, generatedCode = '''', referenceImages = [],
       executionConsole = [], updateInstruction = '''', isImportedFromCode = False,
       settings = st, appHistory = [], currentVersion = None,
       shouldIncludeResultImage = False \<rparr>"

definition default_settings :: Settings where
  "default_settings =
     \<lparr> openAiApiKey = None, openAiBaseURL = None, screenshotOneApiKey = None,
       isImageGenerationEnabled = True, editorTheme = COBALT,
       generatedCodeConfig = HTML_TAILWIND, isTermOfServiceAccepted = True,
       accessCode = None \<rparr>"

subsection \<open>JavaScript values the handlers depend on\<close>

datatype JsError = TypeError

text \<open>\<open>xs[i]\<close> for an index: \<open>undefined\<close> (here \<open>None\<close>) outside the array.\<close>

definition array_get :: "'a list \<Rightarrow> nat \<Rightarrow> 'a option" where
  "array_get xs i = (if i < length xs then Some (xs ! i) else None)"

text \<open>
  A \<open>number\<close> handed in from outside the component: a finite value, \<open>NaN\<close> or an
  infinity. Finite doubles are rationals, and the handlers only compare them with
  integers and use them as array keys.
\<close>

datatype number = Num rat | NaN | Infinity | NegInfinity

fun js_lt :: "number \<Rightarrow> rat \<Rightarrow> bool" where
  "js_lt (Num q) k = (q < k)"
| "js_lt NaN k = False"
| "js_lt Infinity k = False"
| "js_lt NegInfinity k = True"

fun js_ge :: "number \<Rightarrow> rat \<Rightarrow> bool" where
  "js_ge (Num q) k = (q \<ge> k)"
| "js_ge NaN k = False"
| "js_ge Infinity k = True"
| "js_ge NegInfinity k = False"

text \<open>
  \<open>xs[index]\<close> for an arbitrary number: only a non-negative integer below the length
  names an element; any other key is a property the array does not have.
\<close>

fun is_array_index :: "number \<Rightarrow> nat \<Rightarrow> bool" where
  "is_array_index (Num q) n = (of_int \<lfloor>q\<rfloor> = q \<and> 0 \<le> q \<and> q < of_nat n)"
| "is_array_index _ n = False"

fun to_index :: "number \<Rightarrow> nat" where
  "to_index (Num q) = nat \<lfloor>q\<rfloor>"
| "to_index _ = 0"

definition array_get_number :: "'a list \<Rightarrow> number \<Rightarrow> 'a option" where
  "array_get_number xs index =
     (if is_array_index index (length xs) then Some (xs ! to_index index) else None)"

subsection \<open>Effects outside the component state\<close>

datatype Effect =
    ToastError string
  | AddEvent string
  | GenerateCode FullGenerationSettings

section \<open>Handlers of the App component\<close>

text \<open>
  A handler is written as a function from the state at the time it runs to the state
  after its \<open>set...\<close> calls. A handler that reads state variables reads the values of
  the render that created it; for a click these are the current values, for the
  callbacks handed to \<open>generateCode\<close> and for the code after an \<open>await\<close> they are the
  values of the render in which the operation started, kept as \<open>snap\<close>.
\<close>

definition reset :: "App \<Rightarrow> App" where
  "reset s = s\<lparr> appState := INITIAL, generatedCode := '''', referenceImages := [],
                executionConsole := [], updateInstruction := '''',
                isImportedFromCode := False, appHistory := [], currentVersion := None,
                shouldIncludeResultImage := False \<rparr>"

text \<open>
  \<open>cancelCodeGenerationAndReset\<close> reads \<open>currentVersion\<close> and \<open>appHistory\<close> of its render
  (\<open>snap\<close>) and writes to the current state. \<open>appHistory[currentVersion].code\<close> throws
  a \<open>TypeError\<close> when the entry is missing, before any state is written.
\<close>

definition cancelCodeGenerationAndReset :: "App \<Rightarrow> App \<Rightarrow> JsError + App" where
  "cancelCodeGenerationAndReset snap s =
     (case currentVersion snap of
        None \<Rightarrow> Inr (reset s)
      | Some v \<Rightarrow>
          (case array_get (appHistory snap) v of
             None \<Rightarrow> Inl TypeError
           | Some item \<Rightarrow> Inr (s\<lparr> generatedCode := code item, appState := CODE_READY \<rparr>)))"

subsection \<open>doGenerateCode\<close>

text \<open>
  What the callbacks of one \<open>doGenerateCode\<close> call close over: the state variables of
  the render in which \<open>doCreate\<close> or \<open>doUpdate\<close> was called, and the two arguments.
\<close>

record Closure =
  snap :: App
  params :: CodeGenerationParams
  parentVersion :: "nat option"

text \<open>The part of \<open>doGenerateCode\<close> before \<open>await getToken()\<close>.\<close>

definition doGenerateCode_begin :: "App \<Rightarrow> App" where
  "doGenerateCode_begin s = s\<lparr> executionConsole := [], appState := CODING \<rparr>"

text \<open>
  \<open>updatedParams\<close>: the parameters merged with the settings of the render, and
  \<open>authToken || undefined\<close> (a \<open>null\<close> or empty token is dropped).
\<close>

definition updatedParams :: "Closure \<Rightarrow> string option \<Rightarrow> FullGenerationSettings" where
  "updatedParams c tok =
     \<lparr> generationParams =
         (params c)\<lparr> authToken := (if tok = None \<or> tok = Some [] then None else tok) \<rparr>,
       generationSettings = settings (snap c) \<rparr>"

text \<open>On change: \<open>(token) => setGeneratedCode((prev) => prev + token)\<close>.\<close>

definition on_change :: "string \<Rightarrow> App \<Rightarrow> App" where
  "on_change token s = s\<lparr> generatedCode := generatedCode s @ token \<rparr>"

text \<open>
  On set code. The updater of \<open>setAppHistory\<close> runs on the latest history (\<open>prev\<close>);
  \<open>referenceImages\<close>, \<open>updateInstruction\<close> and \<open>parentVersion\<close> are those of the closure.
\<close>

definition on_set_code :: "Closure \<Rightarrow> string \<Rightarrow> App \<Rightarrow> App \<times> Effect list" where
  "on_set_code c cd s =
     (if generationType (params c) = GT_create then
        (s\<lparr> generatedCode := cd,
            appHistory :=
              [\<lparr> type = ai_create, parentIndex = None, code = cd,
                 inputs = Inputs_image_url (array_get (referenceImages (snap c)) 0) \<rparr>],
            currentVersion := Some 0 \<rparr>, [])
      else
        (case parentVersion c of
           None \<Rightarrow>
             (s\<lparr> generatedCode := cd \<rparr>,
              [ToastError ''No parent version set. Contact support or open a Github issue.'',
               AddEvent ''ParentVersionNull''])
         | Some p \<Rightarrow>
             (let newHistory =
                    appHistory s @
                      [\<lparr> type = ai_edit, parentIndex = Some p, code = cd,
                         inputs = Inputs_prompt (updateInstruction (snap c)) \<rparr>]
              in (s\<lparr> generatedCode := cd, appHistory := newHistory,
                      currentVersion := Some (length newHistory - 1) \<rparr>, []))))"

text \<open>On status update: \<open>(line) => setExecutionConsole((prev) => [...prev, line])\<close>.\<close>

definition on_status_update :: "string \<Rightarrow> App \<Rightarrow> App" where
  "on_status_update line s = s\<lparr> executionConsole := executionConsole s @ [line] \<rparr>"

text \<open>On cancel: \<open>cancelCodeGenerationAndReset\<close> of the closure's render.\<close>

definition on_cancel :: "Closure \<Rightarrow> App \<Rightarrow> JsError + App" where
  "on_cancel c s = cancelCodeGenerationAndReset (snap c) s"

text \<open>On complete.\<close>

definition on_complete :: "App \<Rightarrow> App" where
  "on_complete s = s\<lparr> appState := CODE_READY \<rparr>"

subsection \<open>Operations suspended at an await\<close>

text \<open>
  \<open>doUpdate\<close> and \<open>doGenerateCode\<close> are async: they run up to an \<open>await\<close>, other
  handlers may run, and they continue later on the state found then.
  \<^item> \<open>AwaitScreenshot snap updatedHistory\<close>: \<open>doUpdate\<close> at \<open>await takeScreenshot()\<close>;
  \<^item> \<open>AwaitToken c fromUpdate\<close>: \<open>doGenerateCode\<close> at \<open>await getToken()\<close>, called from
    \<open>doUpdate\<close> when \<open>fromUpdate\<close>;
  \<^item> \<open>Streaming c\<close>: \<open>generateCode\<close> holds the callbacks of closure \<open>c\<close>.
\<close>

datatype Task =
    AwaitScreenshot App "string list"
  | AwaitToken Closure bool
  | Streaming Closure

subsection \<open>doCreate\<close>

text \<open>
  The closure is that of the render in which \<open>doCreate\<close> was called: the state
  variables before \<open>reset()\<close>, and its \<open>currentVersion\<close> as \<open>parentVersion\<close>.
\<close>

definition doCreate :: "string list \<Rightarrow> App \<Rightarrow> App \<times> Task option" where
  "doCreate imgs s =
     (let s1 = (reset s)\<lparr> referenceImages := imgs \<rparr>
      in if length imgs > 0 then
           (doGenerateCode_begin s1,
            Some (AwaitToken
                    \<lparr> snap = s,
                      params = \<lparr> generationType = GT_create, image = array_get imgs 0,
                                 resultImage = None, history = None,
                                 isImportedFromCodeParam = None, authToken = None \<rparr>,
                      parentVersion = currentVersion s \<rparr> False))
         else (s1, None))"

subsection \<open>doUpdate\<close>

text \<open>
  \<open>extractHistoryTree\<close> (\<open>components/history/utils\<close>) is a parameter \<open>eht\<close>: it returns
  the list of strings or throws.
\<close>

definition update_params :: "App \<Rightarrow> string option \<Rightarrow> string list \<Rightarrow> CodeGenerationParams" where
  "update_params s resultImg updatedHistory =
     \<lparr> generationType = GT_update, image = array_get (referenceImages s) 0,
       resultImage = resultImg, history = Some updatedHistory,
       isImportedFromCodeParam = Some (isImportedFromCode s), authToken = None \<rparr>"

text \<open>
  The closure of the \<open>doGenerateCode\<close> call of \<open>doUpdate\<close>: the render of the click,
  the update parameters, and \<open>currentVersion\<close> of that render as \<open>parentVersion\<close>.
\<close>

definition update_closure :: "App \<Rightarrow> string option \<Rightarrow> string list \<Rightarrow> Closure" where
  "update_closure s resultImg updatedHistory =
     \<lparr> snap = s, params = update_params s resultImg updatedHistory,
       parentVersion = currentVersion s \<rparr>"

definition doUpdate ::
  "(History \<Rightarrow> nat \<Rightarrow> JsError + string list) \<Rightarrow> App \<Rightarrow> App \<times> Effect list \<times> Task option" where
  "doUpdate eht s =
     (case currentVersion s of
        None \<Rightarrow>
          (s, [ToastError ''No current version set. Contact support or open a Github issue.'',
               AddEvent ''CurrentVersionNull''], None)
      | Some v \<Rightarrow>
          (case eht (appHistory s) v of
             Inl e \<Rightarrow>
               (s, [AddEvent ''HistoryTreeFailed'',
                    ToastError ''Version history is invalid. This shouldn't happen. Please contact support or open a Github issue.''],
                None)
           | Inr historyTree \<Rightarrow>
               (let updatedHistory = historyTree @ [updateInstruction s]
                in if shouldIncludeResultImage s then
                     (s, [], Some (AwaitScreenshot s updatedHistory))
                   else
                     (doGenerateCode_begin s, [],
                      Some (AwaitToken (update_closure s None updatedHistory) True)))))"

text \<open>\<open>doUpdate\<close> after \<open>await takeScreenshot()\<close> returned \<open>resultImage\<close>.\<close>

definition doUpdate_after_screenshot :: "App \<Rightarrow> string list \<Rightarrow> string \<Rightarrow> App \<Rightarrow> App \<times> Task" where
  "doUpdate_after_screenshot sn updatedHistory resultImg s =
     (doGenerateCode_begin s,
      AwaitToken (update_closure sn (Some resultImg) updatedHistory) True)"

text \<open>
  \<open>doGenerateCode\<close> after \<open>await getToken()\<close> returned \<open>tok\<close>: \<open>generateCode\<close> is called
  with \<open>updatedParams\<close> and the callbacks; when the caller is \<open>doUpdate\<close>, it then runs
  \<open>setGeneratedCode("")\<close> and \<open>setUpdateInstruction("")\<close>.
\<close>

definition doGenerateCode_after_getToken ::
  "Closure \<Rightarrow> bool \<Rightarrow> string option \<Rightarrow> App \<Rightarrow> App \<times> Effect list \<times> Task" where
  "doGenerateCode_after_getToken c fromUpdate tok s =
     ((if fromUpdate then s\<lparr> generatedCode := [], updateInstruction := [] \<rparr> else s),
      [GenerateCode (updatedParams c tok)], Streaming c)"

subsection \<open>setStack, importFromCode, revertToVersion\<close>

definition setStack :: "Stack \<Rightarrow> App \<Rightarrow> App" where
  "setStack stack s = s\<lparr> settings := (settings s)\<lparr> generatedCodeConfig := stack \<rparr> \<rparr>"

definition importFromCode :: "string \<Rightarrow> Stack \<Rightarrow> App \<Rightarrow> App" where
  "importFromCode cd stack s =
     (setStack stack (s\<lparr> isImportedFromCode := True, generatedCode := cd \<rparr>))
       \<lparr> appHistory := [\<lparr> type = code_create, parentIndex = None, code = cd,
                          inputs = Inputs_code cd \<rparr>],
         currentVersion := Some 0, appState := CODE_READY \<rparr>"

text \<open>
  The guard is evaluated left to right; \<open>!appHistory[index]\<close> is true exactly when the
  key names no element, since every element is an object.
\<close>

definition revertToVersion :: "number \<Rightarrow> App \<Rightarrow> JsError + App" where
  "revertToVersion index s =
     (if js_lt index 0 \<or> js_ge index (of_nat (length (appHistory s)))
         \<or> array_get_number (appHistory s) index = None
      then Inr s
      else (case array_get_number (appHistory s) index of
              None \<Rightarrow> Inl TypeError
            | Some item \<Rightarrow>
                Inr (s\<lparr> currentVersion := Some (to_index index),
                        generatedCode := code item \<rparr>)))"

subsection \<open>cancelCodeGeneration\<close>

text \<open>
  The socket behind \<open>wsRef.current\<close>: \<open>close(code)\<close> starts the closing handshake with
  that code unless the socket is already closing or closed. The constant of
  \<open>./constants\<close> is kept by name.
\<close>

datatype ReadyState = CONNECTING | OPEN | CLOSING | CLOSED

datatype CloseCode = USER_CLOSE_WEB_SOCKET_CODE | OTHER_CLOSE_CODE nat

record WebSocket =
  readyState :: ReadyState
  closeCode :: "CloseCode option"

definition ws_close :: "CloseCode \<Rightarrow> WebSocket \<Rightarrow> WebSocket" where
  "ws_close c ws =
     (if readyState ws = CLOSING \<or> readyState ws = CLOSED then ws
      else ws\<lparr> readyState := CLOSING, closeCode := Some c \<rparr>)"

definition cancelCodeGeneration ::
  "WebSocket option \<Rightarrow> App \<Rightarrow> WebSocket option \<times> (JsError + App)" where
  "cancelCodeGeneration wsRef s =
     (map_option (ws_close USER_CLOSE_WEB_SOCKET_CODE) wsRef,
      cancelCodeGenerationAndReset s s)"

subsection \<open>downloadCode\<close>

text \<open>
  The browser objects \<open>downloadCode\<close> touches: the registry of object URLs, the
  children of \<open>document.body\<close> (by node id) and the files the browser has been asked
  to save. An object URL and a node are named by a counter.
\<close>

record Blob =
  blobParts :: "string list"
  blobType :: string

record Anchor =
  nodeId :: nat
  href :: "nat option"
  download :: "string option"

record Browser =
  objectUrls :: "(nat \<times> Blob) list"
  nextUrl :: nat
  nextNode :: nat
  bodyChildren :: "nat list"
  downloads :: "(string \<times> Blob) list"

definition createObjectURL :: "Blob \<Rightarrow> Browser \<Rightarrow> nat \<times> Browser" where
  "createObjectURL b br =
     (nextUrl br, br\<lparr> objectUrls := (nextUrl br, b) # objectUrls br,
                       nextUrl := Suc (nextUrl br) \<rparr>)"

definition revokeObjectURL :: "nat \<Rightarrow> Browser \<Rightarrow> Browser" where
  "revokeObjectURL u br = br\<lparr> objectUrls := filter (\<lambda>e. fst e \<noteq> u) (objectUrls br) \<rparr>"

definition createElement_a :: "Browser \<Rightarrow> Anchor \<times> Browser" where
  "createElement_a br =
     (\<lparr> nodeId = nextNode br, href = None, download = None \<rparr>,
      br\<lparr> nextNode := Suc (nextNode br) \<rparr>)"

definition appendChild :: "Anchor \<Rightarrow> Browser \<Rightarrow> Browser" where
  "appendChild a br = br\<lparr> bodyChildren := bodyChildren br @ [nodeId a] \<rparr>"

definition removeChild :: "Anchor \<Rightarrow> Browser \<Rightarrow> Browser" where
  "removeChild a br = br\<lparr> bodyChildren := rev (remove1 (nodeId a) (rev (bodyChildren br))) \<rparr>"

text \<open>
  Clicking an anchor with a \<open>download\<close> attribute whose \<open>href\<close> is a registered object
  URL saves that blob under the attribute's name.
\<close>

definition click :: "Anchor \<Rightarrow> Browser \<Rightarrow> Browser" where
  "click a br =
     (case (download a, href a) of
        (Some name, Some u) \<Rightarrow>
          (case map_of (objectUrls br) u of
             Some b \<Rightarrow> br\<lparr> downloads := downloads br @ [(name, b)] \<rparr>
           | None \<Rightarrow> br)
      | _ \<Rightarrow> br)"

definition downloadCode :: "App \<Rightarrow> Browser \<Rightarrow> App \<times> Effect list \<times> Browser" where
  "downloadCode s br =
     (let blob = \<lparr> blobParts = [generatedCode s], blobType = ''text/html'' \<rparr>;
          (url, br1) = createObjectURL blob br;
          (a0, br2) = createElement_a br1;
          a1 = a0\<lparr> href := Some url \<rparr>;
          a = a1\<lparr> download := Some ''index.html'' \<rparr>;
          br3 = appendChild a br2;
          br4 = click a br3;
          br5 = removeChild a br4;
          br6 = revokeObjectURL url br5
      in (s, [AddEvent ''Download''], br6))"

subsection \<open>takeScreenshot\<close>

text \<open>
  \<open>document.querySelector\<close>, \<open>html2canvas\<close> and \<open>canvas.toDataURL\<close> are parameters; an
  absent element, window or body is \<open>None\<close>.
\<close>

record 'b Window =
  document_body :: "'b option"

record 'b IFrame =
  contentWindow :: "'b Window option"

definition takeScreenshot ::
  "(string \<Rightarrow> 'b IFrame option) \<Rightarrow> ('b \<Rightarrow> 'c) \<Rightarrow> ('c \<Rightarrow> string \<Rightarrow> string) \<Rightarrow> string" where
  "takeScreenshot querySelector html2canvas toDataURL =
     (case querySelector ''#preview-desktop'' of
        None \<Rightarrow> ''''
      | Some iframeElement \<Rightarrow>
          (case contentWindow iframeElement of
             None \<Rightarrow> ''''
           | Some w \<Rightarrow>
               (case document_body w of
                  None \<Rightarrow> ''''
                | Some body \<Rightarrow>
                    (let canvas = html2canvas body; png = toDataURL canvas ''image/png''
                     in png))))"

section \<open>The component as a transition system\<close>

text \<open>
  A configuration is the component state, the socket in \<open>wsRef.current\<close> and the
  operations in flight. An event is a user action that the rendered page offers in the
  current \<open>appState\<close>, the completion of an \<open>await\<close>, or a callback of a running
  generation. A handler that throws leaves the state as it was.
\<close>

record Config =
  app :: App
  wsRef :: "WebSocket option"
  tasks :: "Task list"

definition initial :: "Settings \<Rightarrow> Config" where
  "initial st = \<lparr> app = initial_App st, wsRef = None, tasks = [] \<rparr>"

datatype Event =
    Click_doCreate "string list"
  | Click_importFromCode string Stack
  | Click_doUpdate "JsError + string list"
  | Click_reset
  | Click_cancel
  | Click_revert number
  | Type_updateInstruction string
  | Toggle_shouldIncludeResultImage bool
  | Edit_generatedCode string
  | Change_settings Settings
  | Socket_stored "WebSocket option"
  | Screenshot_resolved nat string
  | Token_resolved nat "string option"
  | Ws_change nat string
  | Ws_setCode nat string
  | Ws_status nat string
  | Ws_cancel nat
  | Ws_complete nat

definition commit :: "JsError + App \<Rightarrow> App \<Rightarrow> App" where
  "commit r s = (case r of Inl e \<Rightarrow> s | Inr s' \<Rightarrow> s')"

text \<open>
  \<open>Click_doUpdate r\<close> carries what \<open>extractHistoryTree\<close> answers in this click;
  \<open>Socket_stored\<close> is \<open>generateCode\<close> writing \<open>wsRef.current\<close>.
\<close>

fun step :: "Event \<Rightarrow> Config \<Rightarrow> Config option" where
  "step (Click_doCreate imgs) c =
     (if appState (app c) = INITIAL then
        (case doCreate imgs (app c) of
           (a, t) \<Rightarrow> Some (c\<lparr> app := a, tasks := tasks c @ (case t of None \<Rightarrow> [] | Some x \<Rightarrow> [x]) \<rparr>))
      else None)"
| "step (Click_importFromCode cd stack) c =
     (if appState (app c) = INITIAL then Some (c\<lparr> app := importFromCode cd stack (app c) \<rparr>)
      else None)"
| "step (Click_doUpdate r) c =
     (if appState (app c) = CODE_READY then
        (case doUpdate (\<lambda>h v. r) (app c) of
           (a, fx, t) \<Rightarrow> Some (c\<lparr> app := a, tasks := tasks c @ (case t of None \<Rightarrow> [] | Some x \<Rightarrow> [x]) \<rparr>))
      else None)"
| "step Click_reset c =
     (if appState (app c) = CODE_READY then Some (c\<lparr> app := reset (app c) \<rparr>) else None)"
| "step Click_cancel c =
     (if appState (app c) = CODING then
        (case cancelCodeGeneration (wsRef c) (app c) of
           (w, r) \<Rightarrow> Some (c\<lparr> app := commit r (app c), wsRef := w \<rparr>))
      else None)"
| "step (Click_revert index) c =
     Some (c\<lparr> app := commit (revertToVersion index (app c)) (app c) \<rparr>)"
| "step (Type_updateInstruction v) c =
     (if appState (app c) = CODE_READY then Some (c\<lparr> app := (app c)\<lparr> updateInstruction := v \<rparr> \<rparr>)
      else None)"
| "step (Toggle_shouldIncludeResultImage b) c =
     (if appState (app c) = CODE_READY
      then Some (c\<lparr> app := (app c)\<lparr> shouldIncludeResultImage := b \<rparr> \<rparr>)
      else None)"
| "step (Edit_generatedCode v) c =
     (if appState (app c) = CODING \<or> appState (app c) = CODE_READY
      then Some (c\<lparr> app := (app c)\<lparr> generatedCode := v \<rparr> \<rparr>)
      else None)"
| "step (Change_settings st) c = Some (c\<lparr> app := (app c)\<lparr> settings := st \<rparr> \<rparr>)"
| "step (Socket_stored w) c = Some (c\<lparr> wsRef := w \<rparr>)"
| "step (Screenshot_resolved i img) c =
     (case array_get (tasks c) i of
        Some (AwaitScreenshot sn uh) \<Rightarrow>
          (case doUpdate_after_screenshot sn uh img (app c) of
             (a, t) \<Rightarrow> Some (c\<lparr> app := a, tasks := (tasks c)[i := t] \<rparr>))
      | _ \<Rightarrow> None)"
| "step (Token_resolved i tok) c =
     (case array_get (tasks c) i of
        Some (AwaitToken cl fromUpdate) \<Rightarrow>
          (case doGenerateCode_after_getToken cl fromUpdate tok (app c) of
             (a, fx, t) \<Rightarrow> Some (c\<lparr> app := a, tasks := (tasks c)[i := t] \<rparr>))
      | _ \<Rightarrow> None)"
| "step (Ws_change i token) c =
     (case array_get (tasks c) i of
        Some (Streaming cl) \<Rightarrow> Some (c\<lparr> app := on_change token (app c) \<rparr>)
      | _ \<Rightarrow> None)"
| "step (Ws_setCode i cd) c =
     (case array_get (tasks c) i of
        Some (Streaming cl) \<Rightarrow> Some (c\<lparr> app := fst (on_set_code cl cd (app c)) \<rparr>)
      | _ \<Rightarrow> None)"
| "step (Ws_status i line) c =
     (case array_get (tasks c) i of
        Some (Streaming cl) \<Rightarrow> Some (c\<lparr> app := on_status_update line (app c) \<rparr>)
      | _ \<Rightarrow> None)"
| "step (Ws_cancel i) c =
     (case array_get (tasks c) i of
        Some (Streaming cl) \<Rightarrow> Some (c\<lparr> app := commit (on_cancel cl (app c)) (app c) \<rparr>)
      | _ \<Rightarrow> None)"
| "step (Ws_complete i) c =
     (case array_get (tasks c) i of
        Some (Streaming cl) \<Rightarrow> Some (c\<lparr> app := on_complete (app c) \<rparr>)
      | _ \<Rightarrow> None)"

fun run :: "Event list \<Rightarrow> Config \<Rightarrow> Config option" where
  "run [] c = Some c"
| "run (e # es) c = (case step e c of None \<Rightarrow> None | Some c' \<Rightarrow> run es c')"

inductive reachable :: "Config \<Rightarrow> bool" where
  reachable_initial: "reachable (initial st)"
| reachable_step: "reachable c \<Longrightarrow> step e c = Some c' \<Longrightarrow> reachable c'"

section \<open>The history as a tree\<close>

text \<open>
  \<open>parent_before i x\<close>: the parent of the entry at index \<open>i\<close> is \<open>null\<close> or a smaller
  index. \<open>type_ok x\<close>: creations have no parent, edits have one.
\<close>

definition parent_before :: "nat \<Rightarrow> HistoryItem \<Rightarrow> bool" where
  "parent_before i x = (case parentIndex x of None \<Rightarrow> True | Some p \<Rightarrow> p < i)"

definition type_ok :: "HistoryItem \<Rightarrow> bool" where
  "type_ok x = (case type x of
                  ai_create \<Rightarrow> parentIndex x = None
                | code_create \<Rightarrow> parentIndex x = None
                | ai_edit \<Rightarrow> parentIndex x \<noteq> None)"

definition types_ok :: "History \<Rightarrow> bool" where
  "types_ok h = list_all type_ok h"

definition history_tree :: "History \<Rightarrow> bool" where
  "history_tree h =
     (list_all (\<lambda>e. parent_before (fst e) (snd e)) (enumerate 0 h) \<and> types_ok h)"

definition version_valid :: "App \<Rightarrow> bool" where
  "version_valid s = (case currentVersion s of None \<Rightarrow> True | Some v \<Rightarrow> v < length (appHistory s))"

text \<open>
  \<open>setCode_in_range e c\<close>: if \<open>e\<close> is the on-set-code callback of an update, the parent
  version of its closure is an index of the history it appends to.
\<close>

definition parent_in_range :: "Closure \<Rightarrow> History \<Rightarrow> bool" where
  "parent_in_range cl h =
     (if generationType (params cl) = GT_update
      then (case parentVersion cl of None \<Rightarrow> True | Some p \<Rightarrow> p < length h)
      else True)"

fun setCode_in_range :: "Event \<Rightarrow> Config \<Rightarrow> bool" where
  "setCode_in_range (Ws_setCode i cd) c =
     (case array_get (tasks c) i of
        Some (Streaming cl) \<Rightarrow> parent_in_range cl (appHistory (app c))
      | _ \<Rightarrow> True)"
| "setCode_in_range _ c = True"

fun parents_in_range :: "Event list \<Rightarrow> Config \<Rightarrow> bool" where
  "parents_in_range [] c = True"
| "parents_in_range (e # es) c =
     (setCode_in_range e c \<and>
      (case step e c of None \<Rightarrow> True | Some c' \<Rightarrow> parents_in_range es c'))"

subsection \<open>extractHistoryTree\<close>

text \<open>
  Modelled from the spec: \<open>extractHistoryTree\<close> of \<open>components/history/utils\<close>, which is
  not under the source files. The spec says that the history "behaves like a tree of
  edits with a notion of path from root to current node, used to reconstruct an ordered
  instruction sequence for the backend", and that its failure is a thrown error. The
  model walks from the given version along \<open>parentIndex\<close> up to an entry without
  parent, puts the strings of the entries it passes in the order from that root to the
  version, and throws at an index that names no entry. What strings an entry
  contributes is not in the spec: it is the parameter \<open>instr\<close>. \<open>fuel\<close> bounds the walk:
  on parent links that form a cycle the walk never returns, which is \<open>None\<close>.
\<close>

fun extractHistoryTree ::
  "(HistoryItem \<Rightarrow> string list) \<Rightarrow> nat \<Rightarrow> History \<Rightarrow> nat \<Rightarrow> (JsError + string list) option" where
  "extractHistoryTree instr 0 h v = None"
| "extractHistoryTree instr (Suc n) h v =
     (case array_get h v of
        None \<Rightarrow> Some (Inl TypeError)
      | Some item \<Rightarrow>
          (case parentIndex item of
             None \<Rightarrow> Some (Inr (instr item))
           | Some p \<Rightarrow>
               (case extractHistoryTree instr n h p of
                  None \<Rightarrow> None
                | Some (Inl e) \<Rightarrow> Some (Inl e)
                | Some (Inr xs) \<Rightarrow> Some (Inr (xs @ instr item)))))"

text \<open>
  The path from the root to a version, in the spec's words: a non-empty list of indices
  of the history that ends at the version, starts at an entry without parent, and in
  which the parent of every later entry is the index before it.
\<close>

fun is_path :: "History \<Rightarrow> nat option \<Rightarrow> nat list \<Rightarrow> bool" where
  "is_path h prev [] = True"
| "is_path h prev (i # is) =
     (i < length h \<and> parentIndex (h ! i) = prev \<and> is_path h (Some i) is)"

definition root_path :: "History \<Rightarrow> nat list \<Rightarrow> nat \<Rightarrow> bool" where
  "root_path h path v = (path \<noteq> [] \<and> last path = v \<and> is_path h None path)"

section \<open>Example data\<close>

text \<open>
  A history with one creation and one edit, a state showing its second version, a
  stand-in for \<open>extractHistoryTree\<close>, a browser, a preview frame and two runs of the
  component: one in which a creation is followed by an edit, and one in which an update
  is cancelled and the state reset while \<open>doGenerateCode\<close> waits for \<open>getToken()\<close>.
\<close>

definition example_history :: History where
  "example_history =
     [\<lparr> type = ai_create, parentIndex = None, code = ''<p>a</p>'',
        inputs = Inputs_image_url None \<rparr>,
      \<lparr> type = ai_edit, parentIndex = Some 0, code = ''<p>b</p>'',
        inputs = Inputs_prompt ''make it blue'' \<rparr>]"

definition example_App :: App where
  "example_App =
     (initial_App default_settings)
       \<lparr> appState := CODE_READY, generatedCode := ''<p>b</p>'',
         referenceImages := [''img.png''], updateInstruction := ''make it red'',
         appHistory := example_history, currentVersion := Some 1 \<rparr>"

definition example_eht :: "History \<Rightarrow> nat \<Rightarrow> JsError + string list" where
  "example_eht h v = (if v < length h then Inr [code (h ! v)] else Inl TypeError)"

definition example_instr :: "HistoryItem \<Rightarrow> string list" where
  "example_instr item =
     (case inputs item of Inputs_prompt p \<Rightarrow> [p, code item] | _ \<Rightarrow> [code item])"

definition example_extract :: "History \<Rightarrow> nat \<Rightarrow> JsError + string list" where
  "example_extract h v = the (extractHistoryTree example_instr (length h) h v)"

definition example_trace :: "Event list" where
  "example_trace =
     [Click_doCreate [''img.png''],
      Token_resolved 0 (Some ''tok''),
      Ws_change 0 ''<p>'',
      Ws_setCode 0 ''<p>a</p>'',
      Ws_complete 0,
      Type_updateInstruction ''make it blue'',
      Click_doUpdate (Inr [''<p>a</p>'']),
      Token_resolved 1 None,
      Ws_setCode 1 ''<p>b</p>'',
      Ws_change 1 ''x'']"

definition stale_update_trace :: "Event list" where
  "stale_update_trace =
     [Click_importFromCode ''<p>a</p>'' HTML_TAILWIND,
      Click_doUpdate (Inr [''<p>a</p>'']),
      Click_cancel,
      Click_reset,
      Token_resolved 0 None,
      Ws_setCode 0 ''<p>b</p>'']"

definition example_Browser :: Browser where
  "example_Browser =
     \<lparr> objectUrls = [], nextUrl = 7, nextNode = 2, bodyChildren = [0, 1], downloads = [] \<rparr>"

definition example_iframe :: "string IFrame" where
  "example_iframe = \<lparr> contentWindow = Some \<lparr> document_body = Some ''<p>b</p>'' \<rparr> \<rparr>"

definition example_querySelector :: "string IFrame \<Rightarrow> string \<Rightarrow> string IFrame option" where
  "example_querySelector f sel = (if sel = ''#preview-desktop'' then Some f else None)"

definition example_html2canvas :: "string \<Rightarrow> nat" where
  "example_html2canvas body = length body"

definition example_toDataURL :: "nat \<Rightarrow> string \<Rightarrow> string" where
  "example_toDataURL canvas mime = ''data:'' @ mime @ '';base64,'' @ replicate canvas CHR ''A''"

lemmas example_defs = example_history_def example_App_def example_eht_def initial_App_def
  default_settings_def

lemmas handler_defs = initial_def initial_App_def default_settings_def
  importFromCode_def setStack_def doCreate_def doUpdate_def doGenerateCode_begin_def
  update_closure_def update_params_def cancelCodeGeneration_def cancelCodeGenerationAndReset_def
  commit_def reset_def doGenerateCode_after_getToken_def doUpdate_after_screenshot_def
  on_set_code_def on_change_def on_status_update_def on_complete_def on_cancel_def
  array_get_def Let_def

section \<open>Array keys and the guard of revertToVersion\<close>

lemma is_array_index_iff: "is_array_index index n \<longleftrightarrow> (\<exists>k<n. index = Num (of_nat k))"
proof (cases index)
  case (Num q)
  show ?thesis
  proof
    assume "is_array_index index n"
    with Num have q: "of_int \<lfloor>q\<rfloor> = q" "0 \<le> q" "q < of_nat n" by simp_all
    then have "0 \<le> \<lfloor>q\<rfloor>" by simp
    then have "q = of_nat (nat \<lfloor>q\<rfloor>)" using q(1)
      by (metis of_int_of_nat_eq int_nat_eq)
    moreover from this q(3) have "nat \<lfloor>q\<rfloor> < n"
      by (metis of_nat_less_iff)
    ultimately show "\<exists>k<n. index = Num (of_nat k)" using Num by blast
  next
    assume "\<exists>k<n. index = Num (of_nat k)"
    then show "is_array_index index n" by auto
  qed
qed simp_all

lemma is_array_index_to_index: "is_array_index index n \<Longrightarrow> to_index index < n"
  by (auto simp: is_array_index_iff)

lemma revertToVersion_eq:
  "revertToVersion index s =
     Inr (if is_array_index index (length (appHistory s))
          then s\<lparr> currentVersion := Some (to_index index),
                  generatedCode := code (appHistory s ! to_index index) \<rparr>
          else s)"
  by (cases index) (auto simp: revertToVersion_def array_get_number_def)

section \<open>Invariants of the transition system\<close>

subsection \<open>The current version is an index of the history\<close>

lemma step_version_valid:
  assumes "step e c = Some c'" "version_valid (app c)"
  shows "version_valid (app c')"
proof (cases e)
  case (Click_revert index)
  with assms show ?thesis
    by (auto simp: commit_def revertToVersion_eq version_valid_def
        dest: is_array_index_to_index split: option.splits if_splits)
next
  case (Ws_setCode i cd)
  with assms show ?thesis
    by (auto simp: on_set_code_def version_valid_def Let_def
        split: option.splits Task.splits if_splits)
next
  case (Click_doUpdate r)
  with assms show ?thesis
    by (auto simp: doUpdate_def doGenerateCode_begin_def version_valid_def Let_def
        split: option.splits sum.splits if_splits)
next
  case Click_cancel
  with assms show ?thesis
    by (auto simp: cancelCodeGeneration_def cancelCodeGenerationAndReset_def commit_def
        reset_def version_valid_def split: option.splits if_splits)
next
  case (Ws_cancel i)
  with assms show ?thesis
    by (auto simp: on_cancel_def cancelCodeGenerationAndReset_def commit_def reset_def
        version_valid_def split: option.splits Task.splits if_splits)
qed (use assms in \<open>auto simp: doCreate_def reset_def importFromCode_def setStack_def
      doGenerateCode_begin_def doUpdate_after_screenshot_def doGenerateCode_after_getToken_def
      on_change_def on_status_update_def on_complete_def version_valid_def Let_def
      split: option.splits Task.splits if_splits\<close>)

lemma reachable_version_valid: "reachable c \<Longrightarrow> version_valid (app c)"
proof (induction rule: reachable.induct)
  case (reachable_initial st)
  show ?case by (simp add: initial_def initial_App_def version_valid_def)
next
  case (reachable_step c e c')
  then show ?case by (blast intro: step_version_valid)
qed

lemma run_reachable: "reachable c \<Longrightarrow> run evs c = Some c' \<Longrightarrow> reachable c'"
proof (induction evs arbitrary: c)
  case Nil
  then show ?case by simp
next
  case (Cons e evs)
  then show ?case by (auto split: option.splits intro: reachable_step)
qed

subsection \<open>What a step can do to the history\<close>

lemma history_tree_snoc:
  "history_tree (h @ [x]) \<longleftrightarrow> history_tree h \<and> parent_before (length h) x \<and> type_ok x"
  by (auto simp: history_tree_def types_ok_def enumerate_append_eq)

lemma history_tree_Nil: "history_tree []"
  by (simp add: history_tree_def types_ok_def)

lemma history_tree_create:
  "parentIndex x = None \<Longrightarrow> type x \<noteq> ai_edit \<Longrightarrow> history_tree [x]"
  by (cases "type x") (simp_all add: history_tree_def types_ok_def parent_before_def type_ok_def)

lemma types_ok_create: "parentIndex x = None \<Longrightarrow> type x \<noteq> ai_edit \<Longrightarrow> types_ok [x]"
  by (cases "type x") (simp_all add: types_ok_def type_ok_def)

lemma on_set_code_types_ok:
  "types_ok (appHistory s) \<Longrightarrow> types_ok (appHistory (fst (on_set_code cl cd s)))"
  by (auto simp: on_set_code_def Let_def types_ok_def type_ok_def split: option.splits)

lemma on_set_code_history_tree:
  assumes "history_tree (appHistory s)" "parent_in_range cl (appHistory s)"
  shows "history_tree (appHistory (fst (on_set_code cl cd s)))"
proof (cases "generationType (params cl)")
  case GT_create
  then show ?thesis by (simp add: on_set_code_def history_tree_create)
next
  case GT_update
  show ?thesis
  proof (cases "parentVersion cl")
    case None
    with GT_update assms(1) show ?thesis by (simp add: on_set_code_def)
  next
    case (Some q)
    with GT_update assms(2) have "q < length (appHistory s)" by (simp add: parent_in_range_def)
    with GT_update Some assms(1) show ?thesis
      by (simp add: on_set_code_def Let_def history_tree_snoc parent_before_def type_ok_def)
  qed
qed

lemma step_history_cases:
  assumes "step e c = Some c'"
  shows "appHistory (app c') = appHistory (app c) \<or> appHistory (app c') = [] \<or>
         (\<exists>x. appHistory (app c') = [x] \<and> parentIndex x = None \<and> type x \<noteq> ai_edit) \<or>
         (\<exists>i cd cl. e = Ws_setCode i cd \<and> array_get (tasks c) i = Some (Streaming cl) \<and>
                     app c' = fst (on_set_code cl cd (app c)))"
proof (cases e)
  case (Click_revert index)
  with assms show ?thesis by (auto simp: commit_def revertToVersion_eq split: if_splits)
next
  case (Ws_setCode i cd)
  with assms show ?thesis by (auto split: option.splits Task.splits)
next
  case (Click_doUpdate r)
  with assms show ?thesis
    by (auto simp: doUpdate_def doGenerateCode_begin_def Let_def
        split: option.splits sum.splits if_splits)
next
  case Click_cancel
  with assms show ?thesis
    by (auto simp: cancelCodeGeneration_def cancelCodeGenerationAndReset_def commit_def
        reset_def split: option.splits if_splits)
next
  case (Ws_cancel i)
  with assms show ?thesis
    by (auto simp: on_cancel_def cancelCodeGenerationAndReset_def commit_def reset_def
        split: option.splits Task.splits if_splits)
qed (use assms in \<open>auto simp: doCreate_def reset_def importFromCode_def setStack_def
      doGenerateCode_begin_def doUpdate_after_screenshot_def doGenerateCode_after_getToken_def
      on_change_def on_status_update_def on_complete_def Let_def
      split: option.splits Task.splits if_splits\<close>)

lemma step_types_ok:
  assumes "step e c = Some c'" "types_ok (appHistory (app c))"
  shows "types_ok (appHistory (app c'))"
  using step_history_cases[OF assms(1)] assms(2)
  by (auto simp: types_ok_create on_set_code_types_ok) (simp add: types_ok_def)

lemma step_history_tree:
  assumes "step e c = Some c'" "setCode_in_range e c" "history_tree (appHistory (app c))"
  shows "history_tree (appHistory (app c'))"
  using step_history_cases[OF assms(1)] assms(2,3)
  by (auto simp: history_tree_create history_tree_Nil on_set_code_history_tree)

lemma run_types_ok:
  "run evs c = Some c' \<Longrightarrow> types_ok (appHistory (app c)) \<Longrightarrow> types_ok (appHistory (app c'))"
proof (induction evs arbitrary: c)
  case Nil
  then show ?case by simp
next
  case (Cons e evs)
  then show ?case by (auto split: option.splits dest: step_types_ok)
qed

lemma run_history_tree:
  "run evs c = Some c' \<Longrightarrow> parents_in_range evs c \<Longrightarrow> history_tree (appHistory (app c))
     \<Longrightarrow> history_tree (appHistory (app c'))"
proof (induction evs arbitrary: c)
  case Nil
  then show ?case by simp
next
  case (Cons e evs)
  then show ?case by (auto split: option.splits dest: step_history_tree)
qed

text \<open>
  In every run from the initial state the creations of the history have no parent and
  the edits have one; the history is a tree whenever each on-set-code callback of an
  update found the parent version of its closure among the indices of the history it
  appended to.
\<close>

lemma history_tree_in_range_runs:
  assumes "run evs (initial st) = Some c"
  shows "types_ok (appHistory (app c)) \<and>
         (parents_in_range evs (initial st) \<longrightarrow> history_tree (appHistory (app c)))"
  using run_types_ok[OF assms] run_history_tree[OF assms]
  by (simp add: initial_def initial_App_def history_tree_Nil types_ok_def)

lemma example_run:
  "\<exists>c. run example_trace (initial default_settings) = Some c \<and>
       currentVersion (app c) = Some 1 \<and> appHistory (app c) = example_history \<and>
       generatedCode (app c) = ''<p>b</p>x'' \<and> appState (app c) = CODING"
  by (simp add: example_trace_def example_history_def handler_defs)

lemma example_run_in_range: "parents_in_range example_trace (initial default_settings)"
  by (simp add: example_trace_def handler_defs parent_in_range_def)

lemma example_run_history_tree:
  "\<exists>c. run example_trace (initial default_settings) = Some c \<and> history_tree (appHistory (app c))"
proof -
  from example_run obtain c where c: "run example_trace (initial default_settings) = Some c"
    by blast
  from history_tree_in_range_runs[OF c] example_run_in_range c show ?thesis by blast
qed

section \<open>The claims\<close>

subsection \<open>C1: the history as a tree\<close>

text \<open>
  C1 says that in every reachable state each entry's \<open>parentIndex\<close> is \<open>null\<close> or a
  strictly smaller index, and that the on-set-code callback of an update preserves
  this. The run \<open>stale_update_trace\<close> reaches a state where it fails: code is imported
  (history of one entry, current version 0), Update is clicked (\<open>doGenerateCode\<close> sets
  \<open>CODING\<close> and waits for \<open>getToken()\<close>, with \<open>parentVersion = 0\<close> in its closure),
  Cancel is clicked (the current version is not \<open>null\<close>, so the state becomes
  \<open>CODE_READY\<close>), Reset is clicked (the history is emptied), then \<open>getToken()\<close>
  returns, \<open>generateCode\<close> is called all the same, and its on-set-code callback appends
  to the empty history an \<open>ai_edit\<close> entry at index 0 whose \<open>parentIndex\<close> is 0. The
  callback checks only that \<open>parentVersion\<close> is not \<open>null\<close>.
\<close>

theorem stale_update_breaks_history_tree:
  "map_option (\<lambda>c. appHistory (app c)) (run stale_update_trace (initial default_settings)) =
     Some [\<lparr> type = ai_edit, parentIndex = Some 0, code = ''<p>b</p>'',
             inputs = Inputs_prompt '''' \<rparr>] \<and>
   \<not> history_tree
       [\<lparr> type = ai_edit, parentIndex = Some 0, code = ''<p>b</p>'',
          inputs = Inputs_prompt '''' \<rparr>] \<and>
   \<not> parents_in_range stale_update_trace (initial default_settings)"
proof (intro conjI)
  show "map_option (\<lambda>c. appHistory (app c)) (run stale_update_trace (initial default_settings)) =
     Some [\<lparr> type = ai_edit, parentIndex = Some 0, code = ''<p>b</p>'',
             inputs = Inputs_prompt '''' \<rparr>]"
    by (simp add: stale_update_trace_def handler_defs)
  show "\<not> history_tree
       [\<lparr> type = ai_edit, parentIndex = Some 0, code = ''<p>b</p>'',
          inputs = Inputs_prompt '''' \<rparr>]"
    by (simp add: history_tree_def parent_before_def enumerate_eq_zip)
  show "\<not> parents_in_range stale_update_trace (initial default_settings)"
    by (simp add: stale_update_trace_def handler_defs parent_in_range_def)
qed

subsection \<open>C2: the history sent with an update\<close>

lemma doUpdate_ok:
  assumes "currentVersion s = Some v" "eht (appHistory s) v = Inr tree"
  shows "doUpdate eht s =
           (if shouldIncludeResultImage s
            then (s, [], Some (AwaitScreenshot s (tree @ [updateInstruction s])))
            else (doGenerateCode_begin s, [],
                  Some (AwaitToken (update_closure s None (tree @ [updateInstruction s])) True)))"
  using assms by (simp add: doUpdate_def Let_def)

lemma is_path_snoc:
  "is_path h prev (ps @ [i]) \<longleftrightarrow>
     is_path h prev ps \<and> i < length h \<and>
     parentIndex (h ! i) = (if ps = [] then prev else Some (last ps))"
  by (induction ps arbitrary: prev) auto

lemma extractHistoryTree_path:
  "extractHistoryTree instr n h v = Some (Inr xs) \<Longrightarrow>
     \<exists>path. root_path h path v \<and> xs = concat (map (\<lambda>i. instr (h ! i)) path)"
proof (induction n arbitrary: v xs)
  case 0
  then show ?case by simp
next
  case (Suc n)
  from Suc.prems obtain item where item: "array_get h v = Some item"
    by (auto split: option.splits)
  then have v: "v < length h" "item = h ! v" by (auto simp: array_get_def split: if_splits)
  show ?case
  proof (cases "parentIndex item")
    case None
    with Suc.prems item have "xs = instr item" by simp
    with None v have "root_path h [v] v \<and> xs = concat (map (\<lambda>i. instr (h ! i)) [v])"
      by (simp add: root_path_def)
    then show ?thesis by blast
  next
    case (Some p)
    with Suc.prems item obtain ys where ys: "extractHistoryTree instr n h p = Some (Inr ys)"
      "xs = ys @ instr item" by (auto split: option.splits sum.splits)
    from Suc.IH[OF ys(1)] obtain path where path: "root_path h path p"
      "ys = concat (map (\<lambda>i. instr (h ! i)) path)" by blast
    with Some v ys(2) have "root_path h (path @ [v]) v \<and>
        xs = concat (map (\<lambda>i. instr (h ! i)) (path @ [v]))"
      by (simp add: root_path_def is_path_snoc)
    then show ?thesis by blast
  qed
qed

lemma is_path_snoc_unique:
  "is_path h None (ps @ [v]) \<Longrightarrow> is_path h None (qs @ [v]) \<Longrightarrow> ps = qs"
proof (induction ps arbitrary: qs v rule: rev_induct)
  case Nil
  then have root: "parentIndex (h ! v) = None" by simp
  show ?case
  proof (cases qs rule: rev_cases)
    case Nil
    then show ?thesis by simp
  next
    case (snoc qs' q)
    with Nil.prems(2) have "is_path h None ((qs' @ [q]) @ [v])" by simp
    from is_path_snoc[THEN iffD1, OF this] have "parentIndex (h ! v) = Some q" by simp
    with root show ?thesis by simp
  qed
next
  case (snoc p ps)
  from is_path_snoc[THEN iffD1, OF snoc.prems(1)]
  have p: "parentIndex (h ! v) = Some p" "is_path h None (ps @ [p])" by simp_all
  show ?case
  proof (cases qs rule: rev_cases)
    case Nil
    with snoc.prems(2) p show ?thesis by simp
  next
    case (snoc qs' q)
    with snoc.prems(2) have "is_path h None ((qs' @ [q]) @ [v])" by simp
    from is_path_snoc[THEN iffD1, OF this]
    have q: "parentIndex (h ! v) = Some q" "is_path h None (qs' @ [q])" by simp_all
    with p have "q = p" by simp
    with q p snoc.IH have "ps = qs'" by blast
    with \<open>q = p\<close> snoc show ?thesis by simp
  qed
qed

lemma root_path_unique: "root_path h p1 v \<Longrightarrow> root_path h p2 v \<Longrightarrow> p1 = p2"
proof -
  assume a: "root_path h p1 v" "root_path h p2 v"
  then obtain ps qs where "p1 = ps @ [v]" "p2 = qs @ [v]"
    by (metis root_path_def append_butlast_last_id)
  with a show ?thesis by (auto simp: root_path_def dest: is_path_snoc_unique)
qed

text \<open>
  C2. Let \<open>doUpdate\<close> run with current version \<open>v\<close>, and let \<open>extractHistoryTree\<close>
  return \<open>tree\<close> on \<open>appHistory\<close> and \<open>v\<close> (the parameter \<open>eht\<close> of \<open>doUpdate\<close> answers as
  the modelled helper does). Then \<open>tree\<close> is the sequence of the strings of the entries
  along the one path from the root to \<open>v\<close>, in that order. And \<open>doUpdate\<close> leaves an
  operation in flight that does call \<open>generateCode\<close>: either it already waits for the
  token, or it waits for the screenshot and, whatever the screenshot and the state
  found then, goes on to wait for the token; and whatever the token and the state found
  then, it hands \<open>generateCode\<close> exactly one request, an update whose \<open>history\<close> is
  \<open>tree\<close> followed by the update instruction of the click.
\<close>

theorem doUpdate_request_history:
  assumes "currentVersion s = Some v"
    and "eht (appHistory s) v = Inr tree"
    and "extractHistoryTree instr fuel (appHistory s) v = Some (Inr tree)"
  shows "(\<exists>path. root_path (appHistory s) path v \<and>
                 (\<forall>q. root_path (appHistory s) q v \<longrightarrow> q = path) \<and>
                 tree = concat (map (\<lambda>i. instr (appHistory s ! i)) path)) \<and>
         (\<exists>t. snd (snd (doUpdate eht s)) = Some t \<and>
           (\<forall>img s1 tok s2. \<exists>cl req.
              (t = AwaitToken cl True \<or>
               (t = AwaitScreenshot s (tree @ [updateInstruction s]) \<and>
                doUpdate_after_screenshot s (tree @ [updateInstruction s]) img s1 =
                  (doGenerateCode_begin s1, AwaitToken cl True))) \<and>
              doGenerateCode_after_getToken cl True tok s2 =
                (s2\<lparr> generatedCode := '''', updateInstruction := '''' \<rparr>,
                 [GenerateCode req], Streaming cl) \<and>
              generationType (generationParams req) = GT_update \<and>
              history (generationParams req) = Some (tree @ [updateInstruction s])))"
proof
  show "\<exists>path. root_path (appHistory s) path v \<and>
                 (\<forall>q. root_path (appHistory s) q v \<longrightarrow> q = path) \<and>
                 tree = concat (map (\<lambda>i. instr (appHistory s ! i)) path)"
    using extractHistoryTree_path[OF assms(3)] by (blast intro: root_path_unique)
next
  have d: "doUpdate eht s =
           (if shouldIncludeResultImage s
            then (s, [], Some (AwaitScreenshot s (tree @ [updateInstruction s])))
            else (doGenerateCode_begin s, [],
                  Some (AwaitToken (update_closure s None (tree @ [updateInstruction s])) True)))"
    using assms(1,2) by (simp add: doUpdate_def Let_def)
  show "\<exists>t. snd (snd (doUpdate eht s)) = Some t \<and>
           (\<forall>img s1 tok s2. \<exists>cl req.
              (t = AwaitToken cl True \<or>
               (t = AwaitScreenshot s (tree @ [updateInstruction s]) \<and>
                doUpdate_after_screenshot s (tree @ [updateInstruction s]) img s1 =
                  (doGenerateCode_begin s1, AwaitToken cl True))) \<and>
              doGenerateCode_after_getToken cl True tok s2 =
                (s2\<lparr> generatedCode := '''', updateInstruction := '''' \<rparr>,
                 [GenerateCode req], Streaming cl) \<and>
              generationType (generationParams req) = GT_update \<and>
              history (generationParams req) = Some (tree @ [updateInstruction s]))"
  proof (cases "shouldIncludeResultImage s")
    case True
    then show ?thesis
      by (simp add: d doUpdate_after_screenshot_def doGenerateCode_after_getToken_def
          updatedParams_def update_closure_def update_params_def)
  next
    case False
    then show ?thesis
      by (simp add: d doGenerateCode_after_getToken_def
          updatedParams_def update_closure_def update_params_def)
  qed
qed

theorem doUpdate_request_history_witness:
  "currentVersion example_App = Some 1 \<and>
   example_extract (appHistory example_App) 1 =
     Inr [''<p>a</p>'', ''make it blue'', ''<p>b</p>''] \<and>
   extractHistoryTree example_instr 2 (appHistory example_App) 1 =
     Some (Inr [''<p>a</p>'', ''make it blue'', ''<p>b</p>'']) \<and>
   root_path (appHistory example_App) [0, 1] 1 \<and>
   snd (snd (doUpdate example_extract example_App)) =
     Some (AwaitToken (update_closure example_App None
             [''<p>a</p>'', ''make it blue'', ''<p>b</p>'', ''make it red'']) True) \<and>
   (\<exists>path. root_path (appHistory example_App) path 1 \<and>
           (\<forall>q. root_path (appHistory example_App) q 1 \<longrightarrow> q = path) \<and>
           [''<p>a</p>'', ''make it blue'', ''<p>b</p>''] =
             concat (map (\<lambda>i. example_instr (appHistory example_App ! i)) path)) \<and>
   (\<exists>t. snd (snd (doUpdate example_extract example_App)) = Some t \<and>
        (\<forall>img s1 tok s2. \<exists>cl req.
           (t = AwaitToken cl True \<or>
            (t = AwaitScreenshot example_App
                   ([''<p>a</p>'', ''make it blue'', ''<p>b</p>''] @
                      [updateInstruction example_App]) \<and>
             doUpdate_after_screenshot example_App
                   ([''<p>a</p>'', ''make it blue'', ''<p>b</p>''] @
                      [updateInstruction example_App]) img s1 =
               (doGenerateCode_begin s1, AwaitToken cl True))) \<and>
           doGenerateCode_after_getToken cl True tok s2 =
             (s2\<lparr> generatedCode := '''', updateInstruction := '''' \<rparr>,
              [GenerateCode req], Streaming cl) \<and>
           generationType (generationParams req) = GT_update \<and>
           history (generationParams req) =
             Some ([''<p>a</p>'', ''make it blue'', ''<p>b</p>''] @
                     [updateInstruction example_App])))"
proof -
  have h1: "currentVersion example_App = Some 1" by (simp add: example_defs)
  have h3: "extractHistoryTree example_instr 2 (appHistory example_App) 1 =
              Some (Inr [''<p>a</p>'', ''make it blue'', ''<p>b</p>''])"
    by (simp add: example_defs example_instr_def array_get_def numeral_2_eq_2)
  have h2: "example_extract (appHistory example_App) 1 =
              Inr [''<p>a</p>'', ''make it blue'', ''<p>b</p>'']"
    by (simp add: example_extract_def example_defs example_instr_def array_get_def)
  have p: "root_path (appHistory example_App) [0, 1] 1"
    by (simp add: root_path_def example_defs)
  have d: "snd (snd (doUpdate example_extract example_App)) =
     Some (AwaitToken (update_closure example_App None
             [''<p>a</p>'', ''make it blue'', ''<p>b</p>'', ''make it red'']) True)"
    using h1 h2 by (simp add: doUpdate_def Let_def) (simp add: example_defs)
  note t = doUpdate_request_history[where eht = example_extract and s = example_App
      and instr = example_instr and fuel = 2, OF h1 h2 h3]
  show ?thesis
    by (rule conjI[OF h1 conjI[OF h2 conjI[OF h3 conjI[OF p conjI[OF d t]]]]])
qed

subsection \<open>C3: the entry an update appends\<close>

text \<open>
  C3. Let \<open>doUpdate\<close> start in state \<open>s0\<close> with current version \<open>p\<close>, and let \<open>cl\<close> be
  the closure of the generation it leads to (directly or after the screenshot). When
  the on-set-code callback of \<open>cl\<close> fires with \<open>cd\<close> in any later state \<open>s\<close>, it sets
  \<open>generatedCode\<close> to \<open>cd\<close>, appends to the history of \<open>s\<close> exactly one entry, of type
  \<open>ai_edit\<close>, with code \<open>cd\<close>, \<open>parentIndex = p\<close> and the update instruction of \<open>s0\<close> as
  prompt, and sets \<open>currentVersion\<close> to the index of that entry, the new length minus
  one.
\<close>

theorem on_set_code_appends_edit:
  assumes "currentVersion s0 = Some p" "eht (appHistory s0) p = Inr tree"
    and "t = AwaitToken cl b \<or>
         (\<exists>sn uh. t = AwaitScreenshot sn uh \<and>
                   snd (doUpdate_after_screenshot sn uh img s1) = AwaitToken cl b)"
    and "snd (snd (doUpdate eht s0)) = Some t"
  shows "snd (snd (doGenerateCode_after_getToken cl b tok s2)) = Streaming cl \<and>
         on_set_code cl cd s =
           (s\<lparr> generatedCode := cd,
               appHistory := appHistory s @
                 [\<lparr> type = ai_edit, parentIndex = Some p, code = cd,
                    inputs = Inputs_prompt (updateInstruction s0) \<rparr>],
               currentVersion := Some (length (appHistory s)) \<rparr>, []) \<and>
         currentVersion (fst (on_set_code cl cd s)) =
           Some (length (appHistory (fst (on_set_code cl cd s))) - 1)"
proof -
  from assms obtain r where cl: "cl = update_closure s0 r (tree @ [updateInstruction s0])"
    by (auto simp: doUpdate_ok doUpdate_after_screenshot_def split: if_splits)
  show ?thesis using assms(1)
    by (simp add: cl doGenerateCode_after_getToken_def on_set_code_def update_closure_def
        update_params_def Let_def)
qed

theorem on_set_code_appends_edit_witness:
  "currentVersion example_App = Some 1 \<and>
   snd (snd (doUpdate example_eht example_App)) =
     Some (AwaitToken (update_closure example_App None [''<p>b</p>'', ''make it red'']) True) \<and>
   on_set_code (update_closure example_App None [''<p>b</p>'', ''make it red'']) ''<p>c</p>''
       (example_App\<lparr> updateInstruction := '''' \<rparr>) =
     (example_App\<lparr> updateInstruction := '''', generatedCode := ''<p>c</p>'',
         appHistory := example_history @
           [\<lparr> type = ai_edit, parentIndex = Some 1, code = ''<p>c</p>'',
              inputs = Inputs_prompt ''make it red'' \<rparr>],
         currentVersion := Some 2 \<rparr>, [])"
proof -
  have h1: "currentVersion example_App = Some 1" by (simp add: example_defs)
  have h2: "example_eht (appHistory example_App) 1 = Inr [''<p>b</p>'']"
    by (simp add: example_defs)
  have h4: "snd (snd (doUpdate example_eht example_App)) =
     Some (AwaitToken (update_closure example_App None [''<p>b</p>'', ''make it red'']) True)"
    by (simp add: doUpdate_ok[where eht = example_eht and s = example_App, OF h1 h2])
       (simp add: example_defs)
  have h3: "AwaitToken (update_closure example_App None [''<p>b</p>'', ''make it red'']) True =
              AwaitToken (update_closure example_App None [''<p>b</p>'', ''make it red'']) True \<or>
            (\<exists>sn uh. AwaitToken (update_closure example_App None [''<p>b</p>'', ''make it red'']) True =
                        AwaitScreenshot sn uh \<and>
                      snd (doUpdate_after_screenshot sn uh [] example_App) =
                        AwaitToken (update_closure example_App None [''<p>b</p>'', ''make it red'']) True)"
    by simp
  from on_set_code_appends_edit[where eht = example_eht and ?s0.0 = example_App
      and cd = "''<p>c</p>''" and s = "example_App\<lparr> updateInstruction := '''' \<rparr>",
      OF h1 h2 h3 h4]
    h1 h4 show ?thesis
    by (simp add: example_defs)
qed

subsection \<open>C4: a failed update changes nothing\<close>

text \<open>
  As C4 is worded, the failure is reported only as a toast error message. It is not:
  on a state without current version the effects of \<open>doUpdate\<close> are the toast followed
  by the analytics event \<open>CurrentVersionNull\<close>, not the toast alone.
\<close>

theorem doUpdate_failure_not_only_toast:
  "currentVersion (reset example_App) = None \<and>
   fst (snd (doUpdate example_eht (reset example_App))) =
     [ToastError ''No current version set. Contact support or open a Github issue.'',
      AddEvent ''CurrentVersionNull''] \<and>
   fst (snd (doUpdate example_eht (reset example_App))) \<noteq>
     [ToastError ''No current version set. Contact support or open a Github issue.'']"
  by (simp add: doUpdate_def reset_def)

text \<open>
  C4, amended. If \<open>currentVersion\<close> is \<open>null\<close>, \<open>doUpdate\<close> shows the toast "No current
  version set ..." and records the analytics event \<open>CurrentVersionNull\<close>; if
  \<open>extractHistoryTree(appHistory, currentVersion)\<close> throws, it records the analytics
  event \<open>HistoryTreeFailed\<close> and shows the toast "Version history is invalid ...". In
  both cases these are its only effects, it returns the state it was given (so
  \<open>appHistory\<close>, \<open>currentVersion\<close>, \<open>generatedCode\<close>, \<open>updateInstruction\<close> and \<open>appState\<close>
  are unchanged), and it leaves no operation in flight: no generation request is
  started.
\<close>

theorem doUpdate_fails_atomically:
  "(currentVersion s = None \<longrightarrow>
      doUpdate eht s =
        (s, [ToastError ''No current version set. Contact support or open a Github issue.'',
             AddEvent ''CurrentVersionNull''], None)) \<and>
   (\<forall>v e. currentVersion s = Some v \<and> eht (appHistory s) v = Inl e \<longrightarrow>
      doUpdate eht s =
        (s, [AddEvent ''HistoryTreeFailed'',
             ToastError ''Version history is invalid. This shouldn't happen. Please contact support or open a Github issue.''],
         None))"
  by (auto simp: doUpdate_def)

theorem doUpdate_fails_atomically_witness:
  "currentVersion (reset example_App) = None \<and>
   doUpdate example_eht (reset example_App) =
     (reset example_App,
      [ToastError ''No current version set. Contact support or open a Github issue.'',
       AddEvent ''CurrentVersionNull''], None) \<and>
   example_eht (appHistory (example_App\<lparr> currentVersion := Some 5 \<rparr>)) 5 = Inl TypeError \<and>
   doUpdate example_eht (example_App\<lparr> currentVersion := Some 5 \<rparr>) =
      (example_App\<lparr> currentVersion := Some 5 \<rparr>,
       [AddEvent ''HistoryTreeFailed'',
        ToastError ''Version history is invalid. This shouldn't happen. Please contact support or open a Github issue.''],
       None)"
proof -
  have h1: "currentVersion (reset example_App) = None" by (simp add: reset_def)
  have h2: "currentVersion (example_App\<lparr> currentVersion := Some 5 \<rparr>) = Some 5 \<and>
            example_eht (appHistory (example_App\<lparr> currentVersion := Some 5 \<rparr>)) 5 = Inl TypeError"
    by (simp add: example_defs)
  note a = doUpdate_fails_atomically[where eht = example_eht and s = "reset example_App"]
  note b = doUpdate_fails_atomically[where eht = example_eht
      and s = "example_App\<lparr> currentVersion := Some 5 \<rparr>"]
  from conjunct1[OF a] h1 have x: "doUpdate example_eht (reset example_App) =
     (reset example_App,
      [ToastError ''No current version set. Contact support or open a Github issue.'',
       AddEvent ''CurrentVersionNull''], None)" by blast
  from conjunct2[OF b] h2
  have y: "doUpdate example_eht (example_App\<lparr> currentVersion := Some 5 \<rparr>) =
      (example_App\<lparr> currentVersion := Some 5 \<rparr>,
       [AddEvent ''HistoryTreeFailed'',
        ToastError ''Version history is invalid. This shouldn't happen. Please contact support or open a Github issue.''],
       None)" by blast
  from h1 h2 x y show ?thesis by blast
qed

subsection \<open>C5: streaming of generated code\<close>

text \<open>
  C5. Each token delivered by the on-change callback replaces \<open>generatedCode\<close> by its
  previous value followed by the token; after the callbacks for \<open>tokens\<close> have run
  in arrival order, \<open>generatedCode\<close> is its value at the start of streaming followed
  by all the tokens in that order.
\<close>

theorem on_change_appends_tokens:
  "generatedCode (on_change token s) = generatedCode s @ token \<and>
   generatedCode (fold on_change tokens s) = generatedCode s @ concat tokens"
proof
  show "generatedCode (on_change token s) = generatedCode s @ token"
    by (simp add: on_change_def)
next
  show "generatedCode (fold on_change tokens s) = generatedCode s @ concat tokens"
    by (induction tokens arbitrary: s) (simp_all add: on_change_def)
qed

subsection \<open>C6: revertToVersion\<close>

text \<open>
  C6. \<open>revertToVersion(index)\<close> returns the state unchanged unless \<open>index\<close> names an
  element of \<open>appHistory\<close>, that is, unless it is an integer \<open>k\<close> with
  \<open>0 \<le> k < appHistory.length\<close>; for such a \<open>k\<close> it sets \<open>currentVersion\<close> to \<open>k\<close> and
  \<open>generatedCode\<close> to the code of entry \<open>k\<close>. It never throws, so it takes the code of
  no entry outside the array, and it never changes \<open>appHistory\<close>.
\<close>

theorem revertToVersion_guarded:
  "(\<not> is_array_index index (length (appHistory s)) \<longrightarrow> revertToVersion index s = Inr s) \<and>
   (\<forall>k < length (appHistory s).
      revertToVersion (Num (of_nat k)) s =
        Inr (s\<lparr> currentVersion := Some k, generatedCode := code (appHistory s ! k) \<rparr>)) \<and>
   (is_array_index index (length (appHistory s)) \<longleftrightarrow>
      (\<exists>k < length (appHistory s). index = Num (of_nat k))) \<and>
   revertToVersion index s \<noteq> Inl TypeError \<and>
   (\<forall>s'. revertToVersion index s = Inr s' \<longrightarrow> appHistory s' = appHistory s)"
proof (intro conjI allI impI)
  assume "\<not> is_array_index index (length (appHistory s))"
  then show "revertToVersion index s = Inr s" by (simp add: revertToVersion_eq)
next
  fix k assume "k < length (appHistory s)"
  then show "revertToVersion (Num (of_nat k)) s =
        Inr (s\<lparr> currentVersion := Some k, generatedCode := code (appHistory s ! k) \<rparr>)"
    by (simp add: revertToVersion_eq)
next
  show "is_array_index index (length (appHistory s)) \<longleftrightarrow>
      (\<exists>k < length (appHistory s). index = Num (of_nat k))"
    by (rule is_array_index_iff)
next
  show "revertToVersion index s \<noteq> Inl TypeError" by (simp add: revertToVersion_eq)
next
  fix s' assume "revertToVersion index s = Inr s'"
  then show "appHistory s' = appHistory s"
    by (auto simp: revertToVersion_eq split: if_splits)
qed

theorem revertToVersion_guarded_witness:
  "revertToVersion (Num 0) example_App =
     Inr (example_App\<lparr> currentVersion := Some 0, generatedCode := ''<p>a</p>'' \<rparr>) \<and>
   revertToVersion (Num 2) example_App = Inr example_App \<and>
   revertToVersion (Num (- 1)) example_App = Inr example_App \<and>
   revertToVersion (Num (1 / 2)) example_App = Inr example_App \<and>
   revertToVersion NaN example_App = Inr example_App \<and>
   revertToVersion Infinity example_App = Inr example_App"
proof -
  have len: "length (appHistory example_App) = 2" by (simp add: example_defs)
  have half: "\<not> is_array_index (Num (1 / 2)) 2" by code_simp
  note t = revertToVersion_guarded
  have "\<forall>k<length (appHistory example_App).
          revertToVersion (Num (of_nat k)) example_App =
            Inr (example_App\<lparr> currentVersion := Some k,
                   generatedCode := code (appHistory example_App ! k) \<rparr>)"
    using t[of "Num 0" example_App] by (rule conjunct1[OF conjunct2])
  then have "0 < length (appHistory example_App) \<longrightarrow>
          revertToVersion (Num (of_nat 0)) example_App =
            Inr (example_App\<lparr> currentVersion := Some 0,
                   generatedCode := code (appHistory example_App ! 0) \<rparr>)"
    by (rule spec)
  then have a: "revertToVersion (Num 0) example_App =
     Inr (example_App\<lparr> currentVersion := Some 0, generatedCode := ''<p>a</p>'' \<rparr>)"
    by (simp add: len) (simp add: example_defs)
  have noop: "revertToVersion i example_App = Inr example_App" if "\<not> is_array_index i 2" for i
    using conjunct1[OF t[of i example_App]] that len by simp
  have "revertToVersion (Num 2) example_App = Inr example_App" by (rule noop) simp
  moreover have "revertToVersion (Num (- 1)) example_App = Inr example_App" by (rule noop) simp
  moreover have "revertToVersion (Num (1 / 2)) example_App = Inr example_App"
    by (rule noop) (rule half)
  moreover have "revertToVersion NaN example_App = Inr example_App" by (rule noop) simp
  moreover have "revertToVersion Infinity example_App = Inr example_App" by (rule noop) simp
  ultimately show ?thesis using a by blast
qed

subsection \<open>C7: downloadCode\<close>

text \<open>
  C7. \<open>downloadCode\<close> makes a blob of type \<open>text/html\<close> whose only part is the current
  \<open>generatedCode\<close> and has the browser save it under the name \<open>index.html\<close>; afterwards
  the anchor is no longer a child of the body and the object URL is revoked. The
  component state it returns is the state it was given, so \<open>generatedCode\<close>,
  \<open>appHistory\<close>, \<open>currentVersion\<close>, \<open>appState\<close> and \<open>settings\<close> are unchanged; beside the
  download its only effect is the analytics event \<open>Download\<close>.
\<close>

theorem downloadCode_saves_index_html:
  assumes "downloadCode s br = (s', fx, br')"
  shows "s' = s \<and> fx = [AddEvent ''Download''] \<and>
         downloads br' = downloads br @
           [(''index.html'', \<lparr> blobParts = [generatedCode s], blobType = ''text/html'' \<rparr>)] \<and>
         bodyChildren br' = bodyChildren br \<and>
         map_of (objectUrls br') (nextUrl br) = None"
proof -
  have "map_of (filter (\<lambda>e. fst e \<noteq> u) xs) u = None" for u :: nat and xs :: "(nat \<times> Blob) list"
    by (induction xs) auto
  with assms show ?thesis
    by (auto simp: downloadCode_def createObjectURL_def createElement_a_def appendChild_def
        click_def removeChild_def revokeObjectURL_def Let_def)
qed

theorem downloadCode_saves_index_html_witness:
  "downloadCode example_App example_Browser =
     (example_App, [AddEvent ''Download''],
      example_Browser\<lparr> nextUrl := 8, nextNode := 3,
        downloads := [(''index.html'',
                       \<lparr> blobParts = [''<p>b</p>''], blobType = ''text/html'' \<rparr>)] \<rparr>)"
proof -
  obtain s' fx br' where eq: "downloadCode example_App example_Browser = (s', fx, br')"
    by (rule prod_cases3)
  have rest: "objectUrls br' = [] \<and> nextUrl br' = 8 \<and> nextNode br' = 3"
    using eq
    by (auto simp: downloadCode_def createObjectURL_def createElement_a_def appendChild_def
        click_def removeChild_def revokeObjectURL_def Let_def example_Browser_def)
  have g: "generatedCode example_App = ''<p>b</p>''" by (simp add: example_defs)
  from downloadCode_saves_index_html[OF eq] rest g have
    "s' = example_App \<and> fx = [AddEvent ''Download''] \<and>
     br' = example_Browser\<lparr> nextUrl := 8, nextNode := 3,
        downloads := [(''index.html'',
                       \<lparr> blobParts = [''<p>b</p>''], blobType = ''text/html'' \<rparr>)] \<rparr>"
    by (simp add: example_Browser_def)
  with eq show ?thesis by simp
qed

subsection \<open>C8: cancelCodeGeneration\<close>

text \<open>
  C8. In every reachable configuration, \<open>cancelCodeGeneration\<close> calls
  \<open>close(USER_CLOSE_WEB_SOCKET_CODE)\<close> on the socket in \<open>wsRef.current\<close>, if there is
  one (a socket already closing or closed is left as it is), and then, whatever the
  socket was, does not throw and yields: the reset state (\<open>INITIAL\<close>, empty history,
  empty generated code, no current version) if \<open>currentVersion\<close> is \<open>null\<close>; otherwise
  the state with \<open>generatedCode\<close> set to \<open>appHistory[currentVersion].code\<close> and
  \<open>appState\<close> set to \<open>CODE_READY\<close>, everything else, \<open>appHistory\<close> and \<open>currentVersion\<close>
  included, unchanged.
\<close>

theorem cancelCodeGeneration_restores:
  assumes "reachable c"
  shows "cancelCodeGeneration ws (app c) =
           (map_option (ws_close USER_CLOSE_WEB_SOCKET_CODE) ws,
            Inr (case currentVersion (app c) of
                   None \<Rightarrow> reset (app c)
                 | Some v \<Rightarrow> (app c)\<lparr> generatedCode := code (appHistory (app c) ! v),
                                       appState := CODE_READY \<rparr>)) \<and>
         appState (reset (app c)) = INITIAL \<and> appHistory (reset (app c)) = [] \<and>
         generatedCode (reset (app c)) = '''' \<and> currentVersion (reset (app c)) = None \<and>
         (\<forall>w. ws_close USER_CLOSE_WEB_SOCKET_CODE w =
               (if readyState w = CLOSING \<or> readyState w = CLOSED then w
                else w\<lparr> readyState := CLOSING,
                        closeCode := Some USER_CLOSE_WEB_SOCKET_CODE \<rparr>))"
  using reachable_version_valid[OF assms]
  by (auto simp: cancelCodeGeneration_def cancelCodeGenerationAndReset_def version_valid_def
      array_get_def reset_def ws_close_def split: option.splits)

theorem cancelCodeGeneration_restores_witness:
  "\<exists>c. run example_trace (initial default_settings) = Some c \<and>
       generatedCode (app c) = ''<p>b</p>x'' \<and>
       cancelCodeGeneration (Some \<lparr> readyState = OPEN, closeCode = None \<rparr>) (app c) =
         (Some \<lparr> readyState = CLOSING, closeCode = Some USER_CLOSE_WEB_SOCKET_CODE \<rparr>,
          Inr ((app c)\<lparr> generatedCode := ''<p>b</p>'', appState := CODE_READY \<rparr>)) \<and>
       cancelCodeGeneration (Some \<lparr> readyState = CLOSED, closeCode = None \<rparr>) (app c) =
         (Some \<lparr> readyState = CLOSED, closeCode = None \<rparr>,
          Inr ((app c)\<lparr> generatedCode := ''<p>b</p>'', appState := CODE_READY \<rparr>))"
proof -
  from example_run obtain c where c: "run example_trace (initial default_settings) = Some c"
    "currentVersion (app c) = Some 1" "appHistory (app c) = example_history"
    "generatedCode (app c) = ''<p>b</p>x''" by blast
  have "reachable c" using run_reachable[OF reachable_initial c(1)] .
  note t = cancelCodeGeneration_restores[OF this]
  have "cancelCodeGeneration ws (app c) =
          (map_option (ws_close USER_CLOSE_WEB_SOCKET_CODE) ws,
           Inr ((app c)\<lparr> generatedCode := ''<p>b</p>'', appState := CODE_READY \<rparr>))" for ws
    using conjunct1[OF t[of ws]] c(2,3) by (simp add: example_history_def)
  then show ?thesis using c(1,4) by (simp add: ws_close_def)
qed

subsection \<open>C9: doCreate\<close>

text \<open>
  C9. \<open>doCreate\<close> first resets the state. On the empty list it starts nothing and
  returns the reset state: \<open>INITIAL\<close>, empty history, no current version. On a list
  \<open>x # xs\<close> it returns the reset state with the list as \<open>referenceImages\<close> and
  \<open>appState = CODING\<close>, and leaves \<open>doGenerateCode\<close> waiting for the token; whatever the
  token and the state found then, \<open>generateCode\<close> is called with a request of type
  create whose \<open>image\<close> is \<open>x\<close>, the first image of the list.
\<close>

theorem doCreate_resets_then_generates:
  "doCreate [] s = (reset s, None) \<and>
   appState (reset s) = INITIAL \<and> appHistory (reset s) = [] \<and> currentVersion (reset s) = None \<and>
   generatedCode (reset s) = '''' \<and>
   (\<forall>x xs. \<exists>cl.
      doCreate (x # xs) s =
        ((reset s)\<lparr> referenceImages := x # xs, appState := CODING \<rparr>,
         Some (AwaitToken cl False)) \<and>
      (\<forall>tok s'. \<exists>req.
         doGenerateCode_after_getToken cl False tok s' = (s', [GenerateCode req], Streaming cl) \<and>
         generationType (generationParams req) = GT_create \<and>
         image (generationParams req) = Some x))"
  by (auto simp: doCreate_def reset_def doGenerateCode_begin_def doGenerateCode_after_getToken_def
      updatedParams_def array_get_def Let_def)

theorem doCreate_resets_then_generates_witness:
  "doCreate [] example_App = (reset example_App, None) \<and>
   appState (reset example_App) = INITIAL \<and>
   (\<exists>cl. doCreate [''img1.png'', ''img2.png''] example_App =
      ((reset example_App)\<lparr> referenceImages := [''img1.png'', ''img2.png''],
                             appState := CODING \<rparr>,
       Some (AwaitToken cl False)) \<and>
      (\<exists>req. doGenerateCode_after_getToken cl False None example_App =
                (example_App, [GenerateCode req], Streaming cl) \<and>
              generationType (generationParams req) = GT_create \<and>
              image (generationParams req) = Some ''img1.png''))"
proof -
  note t = doCreate_resets_then_generates[of example_App]
  from t have a: "doCreate [] example_App = (reset example_App, None)"
    and b: "appState (reset example_App) = INITIAL" by blast+
  from t have "\<forall>x xs. \<exists>cl.
      doCreate (x # xs) example_App =
        ((reset example_App)\<lparr> referenceImages := x # xs, appState := CODING \<rparr>,
         Some (AwaitToken cl False)) \<and>
      (\<forall>tok s'. \<exists>req.
         doGenerateCode_after_getToken cl False tok s' = (s', [GenerateCode req], Streaming cl) \<and>
         generationType (generationParams req) = GT_create \<and>
         image (generationParams req) = Some x)" by blast
  then obtain cl where cl: "doCreate (''img1.png'' # [''img2.png'']) example_App =
        ((reset example_App)\<lparr> referenceImages := ''img1.png'' # [''img2.png''],
                               appState := CODING \<rparr>,
         Some (AwaitToken cl False))"
      "\<forall>tok s'. \<exists>req.
         doGenerateCode_after_getToken cl False tok s' = (s', [GenerateCode req], Streaming cl) \<and>
         generationType (generationParams req) = GT_create \<and>
         image (generationParams req) = Some ''img1.png''" by blast
  from cl(2) have "\<exists>req.
         doGenerateCode_after_getToken cl False None example_App =
           (example_App, [GenerateCode req], Streaming cl) \<and>
         generationType (generationParams req) = GT_create \<and>
         image (generationParams req) = Some ''img1.png''" by blast
  with a b cl(1) show ?thesis by blast
qed

subsection \<open>C10: takeScreenshot\<close>

text \<open>
  C10. If \<open>document.querySelector("#preview-desktop")\<close> finds no element, or the
  element has no content window, or the window's document has no body,
  \<open>takeScreenshot\<close> returns the empty string; if all three are present it returns
  \<open>toDataURL("image/png")\<close> of the canvas \<open>html2canvas\<close> makes of that body.
\<close>

theorem takeScreenshot_guard:
  "((querySelector ''#preview-desktop'' = None \<or>
     (\<exists>f. querySelector ''#preview-desktop'' = Some f \<and>
          (contentWindow f = None \<or>
           (\<exists>w. contentWindow f = Some w \<and> document_body w = None))))
      \<longrightarrow> takeScreenshot querySelector html2canvas toDataURL = '''') \<and>
   (\<forall>f w body. querySelector ''#preview-desktop'' = Some f \<and> contentWindow f = Some w \<and>
        document_body w = Some body
      \<longrightarrow> takeScreenshot querySelector html2canvas toDataURL =
            toDataURL (html2canvas body) ''image/png'')"
  by (auto simp: takeScreenshot_def Let_def)

theorem takeScreenshot_guard_witness:
  "takeScreenshot (\<lambda>sel. None :: string IFrame option) example_html2canvas example_toDataURL
     = '''' \<and>
   takeScreenshot (example_querySelector \<lparr> contentWindow = None \<rparr>)
     example_html2canvas example_toDataURL = '''' \<and>
   takeScreenshot (example_querySelector \<lparr> contentWindow = Some \<lparr> document_body = None \<rparr> \<rparr>)
     example_html2canvas example_toDataURL = '''' \<and>
   takeScreenshot (example_querySelector example_iframe) example_html2canvas example_toDataURL =
     ''data:image/png;base64,AAAAAAAA''"
proof -
  note t = takeScreenshot_guard[where html2canvas = example_html2canvas
      and toDataURL = example_toDataURL]
  have "takeScreenshot (\<lambda>sel. None :: string IFrame option) example_html2canvas
          example_toDataURL = ''''"
    using conjunct1[OF t[of "\<lambda>sel. None"]] by simp
  moreover have "takeScreenshot (example_querySelector \<lparr> contentWindow = None \<rparr>)
     example_html2canvas example_toDataURL = ''''"
    using conjunct1[OF t[of "example_querySelector \<lparr> contentWindow = None \<rparr>"]]
    by (simp add: example_querySelector_def)
  moreover have
    "takeScreenshot (example_querySelector \<lparr> contentWindow = Some \<lparr> document_body = None \<rparr> \<rparr>)
       example_html2canvas example_toDataURL = ''''"
    using conjunct1[OF t[of "example_querySelector
                               \<lparr> contentWindow = Some \<lparr> document_body = None \<rparr> \<rparr>"]]
    by (simp add: example_querySelector_def)
  moreover have
    "takeScreenshot (example_querySelector example_iframe) example_html2canvas example_toDataURL =
       ''data:image/png;base64,AAAAAAAA''"
    using conjunct2[OF t[of "example_querySelector example_iframe"]]
    by (simp add: example_querySelector_def example_iframe_def example_html2canvas_def
        example_toDataURL_def numeral_eq_Suc)
  ultimately show ?thesis by blast
qed

end
